theory Spec2Isabelle
  imports Main "HOL-Library.Sublist"
begin

section \<open>The hello-world project templates (C and C++)\<close>

text \<open>
  The repository holds source templates: \<^verbatim>\<open>templates/cxx/src/hello.cpp\<close> with its header and two
  test programs, and \<^verbatim>\<open>templates/c/include/__NAME__/hello.h\<close> with one test program. A
  generator outside the repository replaces the tokens \<^verbatim>\<open>__NAME__\<close>, \<^verbatim>\<open>__NAME_UPPER__\<close> and
  \<^verbatim>\<open>${PROJECT_NAME}\<close> before the files are compiled.

  Strings are \<open>char list\<close>; "the string \<open>g\<close> contains the substring \<open>t\<close>" is
  \<open>sublist t g\<close> of \<open>HOL-Library.Sublist\<close>: \<open>g = ps @ t @ ss\<close> for some \<open>ps\<close>, \<open>ss\<close>.
\<close>

subsection \<open>Placeholder substitution\<close>

text \<open>
  Modelled from the spec: the generator that resolves the placeholder tokens is missing from the
  sources. The spec describes it as "a pure mapping from token name to replacement string,
  applied via straightforward text replacement": every occurrence of the token, scanning from
  the left, is replaced by the value, and replaced text is not scanned again. An empty token
  matches nowhere.

  The generator applies the replacement to the text of the file, so in \<^verbatim>\<open>hello.cpp\<close> the name
  lands inside a string literal that the compiler then reads. \<open>get_greeting_compiled\<close> below
  follows that order. \<open>get_greeting\<close> applies the replacement to the value of the literal
  instead; the two agree for every name made of characters that stand for themselves inside a
  C++ string literal (\<open>literal_plain\<close>, lemma \<open>get_greeting_compiled_plain\<close>).
\<close>

function substitute :: "string \<Rightarrow> string \<Rightarrow> string \<Rightarrow> string" where
  "substitute tok val [] = []"
| "substitute tok val (c # cs) =
     (if tok \<noteq> [] \<and> prefix tok (c # cs)
      then val @ substitute tok val (drop (length tok) (c # cs))
      else c # substitute tok val cs)"
  by pat_completeness auto
termination
  by (relation "measure (\<lambda>(tok, val, txt). length txt)") auto

definition PROJECT_NAME :: string where
  "PROJECT_NAME = ''${PROJECT_NAME}''"

subsection \<open>Output streams\<close>

text \<open>
  \<^verbatim>\<open>std::cout\<close> writes through a stream buffer that \<^verbatim>\<open>rdbuf\<close> reads and replaces. Stream buffers
  live in a store indexed by their address; a buffer is modelled by the sequence of characters put
  into it so far. \<open>cout_rdbuf\<close> is the buffer \<^verbatim>\<open>std::cout\<close> points to, \<open>next_buf\<close> the next unused
  address. Whatever else a program's state holds is the record's extension.
\<close>

record iostate =
  cout_rdbuf :: nat
  bufs :: "nat \<Rightarrow> string"
  next_buf :: nat

text \<open>\<^verbatim>\<open>std::cout << txt\<close> for a string.\<close>

definition cout_put :: "string \<Rightarrow> 'a iostate_scheme \<Rightarrow> 'a iostate_scheme" where
  "cout_put txt s = s\<lparr>bufs := (bufs s)(cout_rdbuf s := bufs s (cout_rdbuf s) @ txt)\<rparr>"

text \<open>
  \<^verbatim>\<open>std::cout.flush()\<close> hands the pending characters to the device; the sequence of characters
  put into the buffer, which is what the model records, stays as it is.
\<close>

definition cout_flush :: "'a iostate_scheme \<Rightarrow> 'a iostate_scheme" where
  "cout_flush s = s"

text \<open>\<^verbatim>\<open>std::cout << std::endl\<close>: a newline character, then a flush.\<close>

definition endl :: "'a iostate_scheme \<Rightarrow> 'a iostate_scheme" where
  "endl s = cout_flush (cout_put ''\<newline>'' s)"

text \<open>
  \<^verbatim>\<open>std::ostringstream captured_output;\<close> a new stream with an empty string buffer of its own.
  The result is the address of that buffer.
\<close>

definition new_ostringstream :: "'a iostate_scheme \<Rightarrow> nat \<times> 'a iostate_scheme" where
  "new_ostringstream s =
     (next_buf s, s\<lparr>bufs := (bufs s)(next_buf s := []), next_buf := Suc (next_buf s)\<rparr>)"

text \<open>What has been written to the buffer \<^verbatim>\<open>std::cout\<close> points to.\<close>

definition cout_contents :: "'a iostate_scheme \<Rightarrow> string" where
  "cout_contents s = bufs s (cout_rdbuf s)"

text \<open>A program start: \<^verbatim>\<open>std::cout\<close> on buffer 0, nothing written yet.\<close>

definition initial_io :: iostate where
  "initial_io = \<lparr>cout_rdbuf = 0, bufs = (\<lambda>b. []), next_buf = 1\<rparr>"

subsection \<open>\<^verbatim>\<open>templates/cxx/src/hello.cpp\<close>\<close>

text \<open>The string literal of line 7, as the compiler reads it from the template.\<close>

definition greeting_template :: string where
  "greeting_template = ''Hello from ${PROJECT_NAME}!\<newline>This is a C++ project template.''"

text \<open>
  \<^verbatim>\<open>std::string get_greeting()\<close>, in a project generated with the display name \<open>pn\<close>: the
  value of the literal of line 7 with the name in place of the token. For a name of plain
  characters this is what the compiled function returns; \<open>get_greeting_compiled\<close> below reads
  the generated file itself. Every function of the programs takes the state and returns it,
  changed or not.
\<close>

definition get_greeting :: "string \<Rightarrow> 'a iostate_scheme \<Rightarrow> string \<times> 'a iostate_scheme" where
  "get_greeting pn s = (substitute PROJECT_NAME pn greeting_template, s)"

text \<open>\<^verbatim>\<open>void print_greeting() { std::cout << get_greeting() << std::endl; }\<close>\<close>

definition print_greeting :: "string \<Rightarrow> 'a iostate_scheme \<Rightarrow> 'a iostate_scheme" where
  "print_greeting pn s = (let (greeting, s1) = get_greeting pn s in endl (cout_put greeting s1))"

subsection \<open>Line 7 of \<^verbatim>\<open>hello.cpp\<close> as the compiler reads it\<close>

text \<open>
  The characters between the double quotes of line 7, as they stand in the template file: the
  line break of the greeting is the two characters backslash and \<open>n\<close> there.
\<close>

definition hello_cpp_literal :: string where
  "hello_cpp_literal
     = ''Hello from ${PROJECT_NAME}!'' @ [CHR 0x5C] @ ''nThis is a C++ project template.''"

text \<open>
  A character that stands for itself inside a C++ string literal, whatever the language standard
  and the compiler's options: a printable ASCII character other than the double quote (which ends
  the literal), the backslash (which starts an escape sequence) and the question mark (which may
  start a trigraph).
\<close>

definition literal_plain_char :: "char \<Rightarrow> bool" where
  "literal_plain_char c \<longleftrightarrow>
     32 \<le> (of_char c :: nat) \<and> (of_char c :: nat) \<le> 126
     \<and> c \<noteq> CHR 0x22 \<and> c \<noteq> CHR 0x5C \<and> c \<noteq> CHR ''?''"

definition literal_plain :: "string \<Rightarrow> bool" where
  "literal_plain txt = list_all literal_plain_char txt"

definition octal_digit :: "char \<Rightarrow> bool" where
  "octal_digit c \<longleftrightarrow> c \<in> set ''01234567''"

text \<open>
  The character sequence a string literal with the body \<open>txt\<close> denotes. Plain characters denote
  themselves; backslash \<open>n\<close> is the line break; backslash \<open>0\<close> with no octal digit after it is the
  NUL character. \<open>None\<close> is every body this function does not read: a double quote, a question
  mark, a character outside printable ASCII, any other escape sequence.
\<close>

fun literal_value :: "string \<Rightarrow> string option" where
  "literal_value [] = Some []"
| "literal_value (c # cs) =
     (if c = CHR 0x5C then
        (case cs of
           [] \<Rightarrow> None
         | e # es \<Rightarrow>
             if e = CHR ''n'' then map_option ((#) CHR ''\<newline>'') (literal_value es)
             else if e = CHR ''0'' \<and> (case es of [] \<Rightarrow> True | d # ds \<Rightarrow> \<not> octal_digit d)
               then map_option ((#) CHR 0x00) (literal_value es)
             else None)
      else if literal_plain_char c then map_option ((#) c) (literal_value cs)
      else None)"

text \<open>
  \<^verbatim>\<open>return "...";\<close> in a function that returns \<^verbatim>\<open>std::string\<close> builds the string from a
  \<^verbatim>\<open>const char*\<close>: the characters up to the first NUL.
\<close>

definition c_str :: "string \<Rightarrow> string" where
  "c_str v = takeWhile (\<lambda>c. c \<noteq> CHR 0x00) v"

text \<open>
  \<^verbatim>\<open>get_greeting()\<close> of the file the generator writes for the name \<open>pn\<close>: the replacement in the
  text of the literal, the compiler's reading of it, the conversion to \<^verbatim>\<open>std::string\<close>.
\<close>

definition get_greeting_compiled ::
  "string \<Rightarrow> 'a iostate_scheme \<Rightarrow> (string \<times> 'a iostate_scheme) option" where
  "get_greeting_compiled pn s =
     map_option (\<lambda>v. (c_str v, s)) (literal_value (substitute PROJECT_NAME pn hello_cpp_literal))"

subsection \<open>Library functions the tests call\<close>

text \<open>
  \<^verbatim>\<open>std::string::find(t)\<close>: the position of the first occurrence of \<open>t\<close>, \<open>None\<close> for
  \<^verbatim>\<open>std::string::npos\<close>.
\<close>

fun string_find :: "string \<Rightarrow> string \<Rightarrow> nat option" where
  "string_find [] t = (if t = [] then Some 0 else None)"
| "string_find (c # cs) t =
     (if prefix t (c # cs) then Some 0 else map_option Suc (string_find cs t))"

text \<open>
  \<^verbatim>\<open>strstr(g, t)\<close>: a pointer to the first occurrence of \<open>t\<close> in \<open>g\<close>, modelled by the rest of
  \<open>g\<close> from there, \<open>None\<close> for \<^verbatim>\<open>NULL\<close>.
\<close>

fun strstr :: "string \<Rightarrow> string \<Rightarrow> string option" where
  "strstr [] t = (if t = [] then Some [] else None)"
| "strstr (c # cs) t = (if prefix t (c # cs) then Some (c # cs) else strstr cs t)"

subsection \<open>How a test program ends\<close>

text \<open>
  \<open>Exit n\<close>: \<^verbatim>\<open>main\<close> returns \<open>n\<close>. \<open>Abort\<close>: an \<^verbatim>\<open>assert\<close> fails, which reports on the standard
  error stream and calls \<^verbatim>\<open>abort()\<close>. The assertions are compiled in (\<^verbatim>\<open>NDEBUG\<close> is not defined).
\<close>

datatype outcome = Exit int | Abort

subsection \<open>\<^verbatim>\<open>templates/cxx/tests/test_hello.cpp\<close>\<close>

text \<open>Lines 9 to 21 of \<^verbatim>\<open>main\<close>, for a value \<open>greeting\<close> of the local variable of line 7.\<close>

definition test_hello_cpp_checks ::
  "string \<Rightarrow> 'a iostate_scheme \<Rightarrow> outcome \<times> 'a iostate_scheme" where
  "test_hello_cpp_checks greeting s =
     (if \<not> (greeting \<noteq> []) then (Abort, s)
      else if \<not> (string_find greeting ''Hello from'' \<noteq> None) then (Abort, s)
      else if \<not> (string_find greeting ''C++ project'' \<noteq> None) then (Abort, s)
      else (Exit 0, endl (cout_put ''All tests passed!'' s)))"

definition test_hello_cpp_main ::
  "string \<Rightarrow> 'a iostate_scheme \<Rightarrow> outcome \<times> 'a iostate_scheme" where
  "test_hello_cpp_main pn s =
     (let (greeting, s1) = get_greeting pn s in test_hello_cpp_checks greeting s1)"

subsection \<open>\<^verbatim>\<open>templates/cxx/tests/test_main.cpp\<close>\<close>

text \<open>
  The test calls \<^verbatim>\<open>hello()\<close>, declared in a header \<^verbatim>\<open>hello.hpp\<close> that is not the template's
  \<^verbatim>\<open>__NAME__/hello.hpp\<close>; no file of the sources defines it. It is a parameter: any function
  on the state that returns.

  Lines 8 to 19: redirect \<^verbatim>\<open>std::cout\<close> to a new string stream, call \<^verbatim>\<open>hello()\<close>, put the saved
  buffer back, read what the string stream holds.
\<close>

definition capture_hello ::
  "('a iostate_scheme \<Rightarrow> 'a iostate_scheme) \<Rightarrow> 'a iostate_scheme \<Rightarrow> string \<times> 'a iostate_scheme" where
  "capture_hello hello s =
     (let original_cout = cout_rdbuf s;
          (captured_output, s1) = new_ostringstream s;
          s2 = s1\<lparr>cout_rdbuf := captured_output\<rparr>;
          s3 = hello s2;
          s4 = s3\<lparr>cout_rdbuf := original_cout\<rparr>;
          output = bufs s4 captured_output
      in (output, s4))"

text \<open>Lines 20 to 26: the comparison and the two result messages.\<close>

definition report_result :: "string \<Rightarrow> 'a iostate_scheme \<Rightarrow> outcome \<times> 'a iostate_scheme" where
  "report_result output s =
     (if output = ''Hello, World!\<newline>''
      then (Exit 0, endl (cout_put ''Test passed: hello() output is correct'' s))
      else (Exit 1,
            endl (cout_put [CHR 0x27]
              (cout_put output
                (cout_put (''Test failed: expected 'Hello, World!'' @ [CHR 0x5C] @ ''n', got '' @ [CHR 0x27])
                   s)))))"

definition test_main_cpp_main ::
  "('a iostate_scheme \<Rightarrow> 'a iostate_scheme) \<Rightarrow> 'a iostate_scheme \<Rightarrow> outcome \<times> 'a iostate_scheme" where
  "test_main_cpp_main hello s = (let (output, s4) = capture_hello hello s in report_result output s4)"

subsection \<open>The C template\<close>



subsection \<open>\<^verbatim>\<open>templates/c/tests/test_hello.c\<close>\<close>

text \<open>
  \<^verbatim>\<open>main\<close> from line 9 on, for the pointer \<open>greeting\<close> that \<^verbatim>\<open>get_greeting()\<close> returned in line 7
  (\<open>None\<close> is \<^verbatim>\<open>NULL\<close>); \<open>out\<close> is what has been written to \<^verbatim>\<open>stdout\<close> so far.
\<close>

definition test_hello_c_main :: "string option \<Rightarrow> string \<Rightarrow> outcome \<times> string" where
  "test_hello_c_main greeting out =
     (case greeting of
        None \<Rightarrow> (Abort, out)
      | Some g \<Rightarrow>
          if \<not> (strstr g ''Hello from'' \<noteq> None) then (Abort, out)
          else if \<not> (strstr g ''C project'' \<noteq> None) then (Abort, out)
          else (Exit 0, out @ ''All tests passed!\<newline>''))"

section \<open>Auxiliary facts\<close>

subsection \<open>The greeting after substitution\<close>

lemma greeting_text:
  "substitute PROJECT_NAME pn greeting_template
     = ''Hello from '' @ pn @ ''!\<newline>This is a C++ project template.''"
  by (simp add: PROJECT_NAME_def greeting_template_def)



text \<open>An occurrence of \<open>t\<close> cannot run across a character that \<open>t\<close> does not have.\<close>

lemma prefix_stops_at:
  "b \<notin> set t \<Longrightarrow> prefix t (xs @ b # bs) \<longleftrightarrow> prefix t xs"
proof (induction xs arbitrary: t)
  case Nil
  then show ?case by (cases t) auto
next
  case (Cons x xs)
  then show ?case by (cases t) auto
qed

lemma sublist_stops_at:
  "b \<notin> set t \<Longrightarrow> sublist t (xs @ b # bs) \<longleftrightarrow> sublist t xs \<or> sublist t (b # bs)"
proof (induction xs)
  case Nil
  then show ?case by auto
next
  case (Cons x xs)
  from Cons.prems have "prefix t ((x # xs) @ b # bs) \<longleftrightarrow> prefix t (x # xs)"
    by (rule prefix_stops_at)
  with Cons show ?case
    by (auto simp: sublist_Cons_right)
qed

text \<open>
  "C project" occurs in the C++ greeting only inside the project name: the fixed text before the
  name has no \<open>C\<close>, the exclamation mark after the name is not a character of "C project", and
  the only \<open>C\<close> of the fixed text after it is followed by \<open>+\<close>.
\<close>

lemma c_project_in_greeting:
  "sublist ''C project'' (''Hello from '' @ pn @ ''!\<newline>This is a C++ project template.'')
     \<longleftrightarrow> sublist ''C project'' pn"
proof -
  have tail: "\<not> sublist ''C project'' ''!\<newline>This is a C++ project template.''"
    by (simp add: sublist_code)
  have "sublist ''C project'' (''Hello from '' @ pn @ ''!\<newline>This is a C++ project template.'')
      \<longleftrightarrow> sublist ''C project'' (pn @ ''!\<newline>This is a C++ project template.'')"
    by (simp add: sublist_Cons_right)
  also have "\<dots> \<longleftrightarrow> sublist ''C project'' pn
      \<or> sublist ''C project'' ''!\<newline>This is a C++ project template.''"
    using sublist_stops_at
      [of "CHR ''!''" "''C project''" pn "''\<newline>This is a C++ project template.''"]
    by simp
  finally show ?thesis using tail by simp
qed

subsection \<open>Names that stand for themselves in the literal\<close>

lemma substituted_text:
  "substitute PROJECT_NAME pn hello_cpp_literal
     = ''Hello from '' @ pn @ ''!'' @ [CHR 0x5C] @ ''nThis is a C++ project template.''"
  by (simp add: PROJECT_NAME_def hello_cpp_literal_def)

lemma literal_plain_char_not_special:
  "literal_plain_char c \<Longrightarrow> c \<noteq> CHR 0x5C \<and> c \<noteq> CHR 0x00"
  by (auto simp: literal_plain_char_def)

lemma literal_value_plain:
  "literal_plain xs \<Longrightarrow> literal_value (xs @ ys) = map_option ((@) xs) (literal_value ys)"
proof (induction xs)
  case Nil
  show ?case by (simp add: option.map_ident)
next
  case (Cons x xs)
  then have x: "literal_plain_char x" and xs: "literal_plain xs"
    by (simp_all add: literal_plain_def)
  from x have "x \<noteq> CHR 0x5C"
    by (simp add: literal_plain_char_not_special)
  with x Cons.IH [OF xs] show ?case
    by (simp add: option.map_comp comp_def)
qed

lemma c_str_plain: "literal_plain xs \<Longrightarrow> c_str (xs @ ys) = xs @ c_str ys"
  unfolding c_str_def literal_plain_def list_all_iff
  by (rule takeWhile_append2) (blast dest: literal_plain_char_not_special)

lemma literal_value_tail:
  "literal_value (''!'' @ [CHR 0x5C] @ ''nThis is a C++ project template.'')
     = Some ''!\<newline>This is a C++ project template.''"
  by (simp add: literal_plain_char_def)

lemma literal_plain_head: "literal_plain ''Hello from ''"
  by (simp add: literal_plain_def literal_plain_char_def)

lemma c_str_tail:
  "c_str ''!\<newline>This is a C++ project template.'' = ''!\<newline>This is a C++ project template.''"
  by (simp add: c_str_def)

text \<open>
  For a name of plain characters, replacing in the file's text and then reading the literal gives
  what replacing in the literal's value gives.
\<close>

lemma get_greeting_compiled_plain:
  assumes "literal_plain pn"
  shows "get_greeting_compiled pn s = Some (get_greeting pn s)"
proof -
  have "literal_value (''Hello from '' @ pn @ ''!'' @ [CHR 0x5C] @ ''nThis is a C++ project template.'')
      = Some (''Hello from '' @ pn @ ''!\<newline>This is a C++ project template.'')"
    using assms literal_plain_head literal_value_tail
    by (simp only: literal_value_plain option.map)
  moreover have "c_str (''Hello from '' @ pn @ ''!\<newline>This is a C++ project template.'')
      = ''Hello from '' @ pn @ ''!\<newline>This is a C++ project template.''"
    using assms literal_plain_head c_str_tail
    by (simp only: c_str_plain)
  ultimately show ?thesis
    by (simp only: get_greeting_compiled_def get_greeting_def substituted_text greeting_text
        option.map)
qed

subsection \<open>The library searches find exactly the substrings\<close>

lemma string_find_None_iff: "string_find g t = None \<longleftrightarrow> \<not> sublist t g"
  by (induction g) (auto simp: sublist_Cons_right)

lemma strstr_None_iff: "strstr g t = None \<longleftrightarrow> \<not> sublist t g"
  by (induction g) (auto simp: sublist_Cons_right)

subsection \<open>Stream operations, field by field\<close>

lemma cout_put_simps:
  "cout_rdbuf (cout_put txt s) = cout_rdbuf s"
  "next_buf (cout_put txt s) = next_buf s"
  "bufs (cout_put txt s) = (bufs s)(cout_rdbuf s := bufs s (cout_rdbuf s) @ txt)"
  by (simp_all add: cout_put_def)

lemma endl_simps:
  "cout_rdbuf (endl s) = cout_rdbuf s"
  "next_buf (endl s) = next_buf s"
  "bufs (endl s) = (bufs s)(cout_rdbuf s := bufs s (cout_rdbuf s) @ ''\<newline>'')"
  by (simp_all add: endl_def cout_flush_def cout_put_def)

text \<open>
  Either result message goes to the buffer \<^verbatim>\<open>std::cout\<close> points to when the comparison is made,
  makes that buffer longer, and leaves every other buffer and the pointer alone.
\<close>

lemma report_result_frame:
  "cout_rdbuf (snd (report_result output t)) = cout_rdbuf t
   \<and> bufs (snd (report_result output t))
       = (bufs t)(cout_rdbuf t := bufs (snd (report_result output t)) (cout_rdbuf t))
   \<and> strict_prefix (bufs t (cout_rdbuf t)) (bufs (snd (report_result output t)) (cout_rdbuf t))"
  by (simp add: report_result_def cout_put_simps endl_simps strict_prefix_def)

section \<open>The greeting\<close>

text \<open>
  Claim C1. In a C++ project generated with \<^verbatim>\<open>${PROJECT_NAME}\<close> resolved to "demo",
  \<^verbatim>\<open>get_greeting()\<close> returns exactly "Hello from demo!", a line break, and
  "This is a C++ project template.", in whatever state it is called.
\<close>

theorem get_greeting_demo:
  "fst (get_greeting ''demo'' s) = ''Hello from demo!\<newline>This is a C++ project template.''"
  by (simp add: get_greeting_def greeting_text)







section \<open>The test programs\<close>

text \<open>
  Claim C5, as stated for every test program, fails on \<^verbatim>\<open>test_main.cpp\<close>, which looks for no
  substring. When \<^verbatim>\<open>hello()\<close> prints the C++ greeting for "demo", the captured output contains
  "Hello from" and "C++ project" and \<^verbatim>\<open>main\<close> returns 1. When \<^verbatim>\<open>hello()\<close> prints
  "Hello, World!" and a newline, the captured output does not contain "Hello from" and \<^verbatim>\<open>main\<close>
  returns 0: no assertion fails.
\<close>

theorem test_main_cpp_substrings_counterexample:
  "sublist ''Hello from'' (fst (capture_hello (print_greeting ''demo'') initial_io))
   \<and> sublist ''C++ project'' (fst (capture_hello (print_greeting ''demo'') initial_io))
   \<and> fst (test_main_cpp_main (print_greeting ''demo'') initial_io) = Exit 1
   \<and> \<not> sublist ''Hello from'' (fst (capture_hello (cout_put ''Hello, World!\<newline>'') initial_io))
   \<and> fst (test_main_cpp_main (cout_put ''Hello, World!\<newline>'') initial_io) = Exit 0"
  by (simp add: test_main_cpp_main_def capture_hello_def report_result_def new_ostringstream_def
      initial_io_def print_greeting_def get_greeting_def greeting_text cout_put_simps endl_simps
      sublist_code)

text \<open>
  Claim C5, amended: the test programs \<^verbatim>\<open>test_hello.cpp\<close> and \<^verbatim>\<open>test_hello.c\<close> assert the two
  substring conditions on the greeting ("Hello from" and the language name) and return 0 exactly
  when both hold; for every other greeting, and in C for a \<^verbatim>\<open>NULL\<close> greeting, an assertion
  fails and the program aborts.
\<close>

theorem test_hello_outcome:
  "fst (test_hello_cpp_checks g s)
     = (if sublist ''Hello from'' g \<and> sublist ''C++ project'' g then Exit 0 else Abort)
   \<and> fst (test_hello_c_main (Some g) out)
     = (if sublist ''Hello from'' g \<and> sublist ''C project'' g then Exit 0 else Abort)
   \<and> fst (test_hello_c_main None out) = Abort"
  by (auto simp: test_hello_cpp_checks_def test_hello_c_main_def string_find_None_iff
      strstr_None_iff)

text \<open>
  Claim C6, as stated for every C++ test harness, fails on \<^verbatim>\<open>test_main.cpp\<close>. With the
  template's \<^verbatim>\<open>print_greeting()\<close> for "demo" as \<^verbatim>\<open>hello()\<close>, \<^verbatim>\<open>main\<close> returns 1 and reports
  the failure on \<^verbatim>\<open>std::cout\<close>. With a \<^verbatim>\<open>hello()\<close> that makes it return 0, the output it accepted
  does not contain "C++ project".
\<close>

theorem test_main_cpp_demo_counterexample:
  "fst (test_main_cpp_main (print_greeting ''demo'') initial_io) = Exit 1
   \<and> cout_contents (snd (test_main_cpp_main (print_greeting ''demo'') initial_io))
       = ''Test failed: expected 'Hello, World!'' @ [CHR 0x5C] @ ''n', got ''
         @ [CHR 0x27] @ ''Hello from demo!\<newline>This is a C++ project template.\<newline>''
         @ [CHR 0x27] @ ''\<newline>''
   \<and> fst (test_main_cpp_main (cout_put ''Hello, World!\<newline>'') initial_io) = Exit 0
   \<and> \<not> sublist ''C++ project'' (fst (capture_hello (cout_put ''Hello, World!\<newline>'') initial_io))"
  by (simp add: test_main_cpp_main_def capture_hello_def report_result_def new_ostringstream_def
      initial_io_def print_greeting_def get_greeting_def greeting_text cout_put_simps endl_simps
      cout_contents_def sublist_code)

text \<open>
  Claim C6, amended: with \<^verbatim>\<open>${PROJECT_NAME}\<close> resolved to "demo", \<^verbatim>\<open>main\<close> of
  \<^verbatim>\<open>test_hello.cpp\<close> passes its three assertions, prints "All tests passed!" and a newline, and
  returns 0, from any state.
\<close>

theorem test_hello_cpp_demo:
  "test_hello_cpp_main ''demo'' s = (Exit 0, endl (cout_put ''All tests passed!'' s))"
  by (simp add: test_hello_cpp_main_def test_hello_cpp_checks_def get_greeting_def greeting_text)


text \<open>
  Claim C8. For every \<^verbatim>\<open>hello()\<close> and from every state, \<^verbatim>\<open>main\<close> of \<^verbatim>\<open>test_main.cpp\<close> returns 0
  when the captured output is "Hello, World!" followed by a newline and returns 1 for every other
  captured output; it never ends in a failed assertion.
\<close>

theorem test_main_cpp_returns:
  "fst (test_main_cpp_main hello s)
     = (if fst (capture_hello hello s) = ''Hello, World!\<newline>'' then Exit 0 else Exit 1)
   \<and> fst (test_main_cpp_main hello s) \<noteq> Abort"
  by (simp add: test_main_cpp_main_def report_result_def split: prod.splits)

text \<open>
  Claim C9, as stated, fails for a project name that contains "C project": "My C project" is
  made of plain characters, the C++ greeting of that project contains "C project", \<^verbatim>\<open>strstr\<close>
  finds it, and the checks of \<^verbatim>\<open>test_hello.c\<close> pass on that greeting.
\<close>

theorem cxx_greeting_c_project_counterexample:
  "literal_plain ''My C project''
   \<and> sublist ''C project'' (fst (get_greeting ''My C project'' initial_io))
   \<and> strstr (fst (get_greeting ''My C project'' initial_io)) ''C project'' \<noteq> None
   \<and> fst (test_hello_c_main (Some (fst (get_greeting ''My C project'' initial_io))) []) = Exit 0"
  by (simp add: get_greeting_def greeting_text test_hello_c_main_def sublist_code
      literal_plain_def literal_plain_char_def)

text \<open>
  Claim C9, amended: when the project name is made of characters that stand for themselves in a
  C++ string literal and does not contain "C project", the compiled C++ \<^verbatim>\<open>get_greeting()\<close>
  returns the greeting with the name in place of the token, that string does not contain
  "C project" either, \<^verbatim>\<open>strstr\<close> returns \<^verbatim>\<open>NULL\<close> on it, and the C test aborts on it.
\<close>

theorem cxx_greeting_no_c_project:
  assumes "literal_plain pn" and "\<not> sublist ''C project'' pn"
  shows "get_greeting_compiled pn s = Some (get_greeting pn s)
    \<and> \<not> sublist ''C project'' (fst (get_greeting pn s))
    \<and> strstr (fst (get_greeting pn s)) ''C project'' = None
    \<and> fst (test_hello_c_main (Some (fst (get_greeting pn s))) out) = Abort"
proof -
  have compiled: "get_greeting_compiled pn s = Some (get_greeting pn s)"
    using assms(1) by (rule get_greeting_compiled_plain)
  have shape: "fst (get_greeting pn s)
      = ''Hello from '' @ pn @ ''!\<newline>This is a C++ project template.''"
    by (simp only: get_greeting_def greeting_text fst_conv)
  have absent: "\<not> sublist ''C project'' (fst (get_greeting pn s))"
    unfolding shape using assms(2) c_project_in_greeting [of pn] by blast
  then have null: "strstr (fst (get_greeting pn s)) ''C project'' = None"
    using strstr_None_iff by blast
  then have "fst (test_hello_c_main (Some (fst (get_greeting pn s))) out) = Abort"
    by (simp add: test_hello_c_main_def)
  with compiled absent null show ?thesis by simp
qed

text \<open>Claim C9, amended, at the project name "demo".\<close>

theorem cxx_greeting_no_c_project_witness:
  "literal_plain ''demo''
   \<and> \<not> sublist ''C project'' ''demo''
   \<and> get_greeting_compiled ''demo'' initial_io = Some (get_greeting ''demo'' initial_io)
   \<and> \<not> sublist ''C project'' (fst (get_greeting ''demo'' initial_io))
   \<and> strstr (fst (get_greeting ''demo'' initial_io)) ''C project'' = None
   \<and> fst (test_hello_c_main (Some (fst (get_greeting ''demo'' initial_io))) []) = Abort"
proof -
  have p: "literal_plain ''demo''"
    by (simp add: literal_plain_def literal_plain_char_def)
  have h: "\<not> sublist ''C project'' ''demo''"
    by (simp add: sublist_code)
  from cxx_greeting_no_c_project [OF p h, of initial_io "[]"] p h show ?thesis
    by simp
qed

text \<open>
  Claim C10. In \<^verbatim>\<open>test_main.cpp\<close>, for every \<^verbatim>\<open>hello()\<close>: when lines 8 to 19 are done,
  \<^verbatim>\<open>std::cout\<close> points to the buffer it pointed to at entry; the comparison and the result message
  run from that state; \<^verbatim>\<open>std::cout\<close> still points there when \<^verbatim>\<open>main\<close> returns; and the result
  message, on the pass path and on the fail path alike, is appended to that buffer and to no
  other.
\<close>

theorem test_main_cpp_restores_cout:
  "cout_rdbuf (snd (capture_hello hello s)) = cout_rdbuf s
   \<and> test_main_cpp_main hello s
       = report_result (fst (capture_hello hello s)) (snd (capture_hello hello s))
   \<and> cout_rdbuf (snd (test_main_cpp_main hello s)) = cout_rdbuf s
   \<and> strict_prefix (bufs (snd (capture_hello hello s)) (cout_rdbuf s))
       (bufs (snd (test_main_cpp_main hello s)) (cout_rdbuf s))
   \<and> bufs (snd (test_main_cpp_main hello s))
       = (bufs (snd (capture_hello hello s)))
           (cout_rdbuf s := bufs (snd (test_main_cpp_main hello s)) (cout_rdbuf s))"
proof -
  have restored: "cout_rdbuf (snd (capture_hello hello s)) = cout_rdbuf s"
    by (simp add: capture_hello_def Let_def split: prod.splits)
  have phases: "test_main_cpp_main hello s
       = report_result (fst (capture_hello hello s)) (snd (capture_hello hello s))"
    by (simp add: test_main_cpp_main_def split: prod.splits)
  from report_result_frame [of "fst (capture_hello hello s)" "snd (capture_hello hello s)"]
    restored phases
  show ?thesis by simp
qed

end
